theory Spec2Isabelle
  imports Main "HOL-Library.Word" "HOL-Library.Sublist" "HOL-Library.Monad_Syntax"
begin

unbundle bit_operations_syntax

section \<open>Journal variables of sse-journal (src/variables.cpp)\<close>

text \<open>
  The file resolves chains of relative pointers inside the running game, reads a float
  (the game epoch), three floats (the player position) and two C strings (world and cell
  name) through them, and renders them into user-supplied format strings by repeated
  token replacement.  The development below embeds \<open>relocation::obtain\<close>,
  \<open>replace_all\<close>, \<open>player_location\<close>, \<open>game_time\<close> and the catalogue part of
  \<open>make_variables\<close>.  \<open>local_time\<close>, a wrapper of the C library's \<open>strftime\<close>, is
  not embedded.

  Conventions.  A call that does not return a value is \<open>None\<close>: the replacement loop
  that runs forever, or an array subscript outside the array.  The target is 64-bit
  Windows: \<open>std::uintptr_t\<close> is a 64-bit word, \<open>int\<close> has 32 bits, \<open>float\<close> is IEEE
  binary32 with round-to-nearest-even.  A load from an address that is not mapped stops
  the process; the memory below answers every load, so such stops are outside the model.
\<close>

subsection \<open>Memory and the pointer chain (lines 47-64)\<close>

type_synonym addr = "64 word"
type_synonym float32 = "32 word"

record memory =
  load_ptr :: "addr \<Rightarrow> addr"
  load_float :: "addr \<Rightarrow> float32"
  load_cstr :: "addr \<Rightarrow> string"

text \<open>
  A finite description of a memory for concrete runs: the listed cells hold the listed
  values, every other cell holds zero (the empty string).
\<close>

definition cells :: "(addr \<times> 'a) list \<Rightarrow> 'a \<Rightarrow> addr \<Rightarrow> 'a" where
  "cells kvs dflt a = (case map_of kvs a of None \<Rightarrow> dflt | Some v \<Rightarrow> v)"

definition memory_of ::
  "(addr \<times> addr) list \<Rightarrow> (addr \<times> float32) list \<Rightarrow> (addr \<times> string) list \<Rightarrow> memory" where
  "memory_of ps fs ss =
     \<lparr>load_ptr = cells ps 0, load_float = cells fs 0, load_cstr = cells ss []\<rparr>"

text \<open>
  \<open>relocation<T, N>::obtain\<close>.  The array \<open>offsets\<close> has \<open>1 + N\<close> entries by its type.
  The loop is the \<open>for\<close> of lines 57-61; \<open>that\<close> is the cursor, the null pointer is the
  word 0.  Beside the returned pointer the model records, in order, the addresses the loop
  dereferences.
\<close>

function obtain_loop ::
  "memory \<Rightarrow> addr list \<Rightarrow> nat \<Rightarrow> nat \<Rightarrow> addr \<Rightarrow> addr list \<Rightarrow> addr \<times> addr list" where
  "obtain_loop mem offsets N i that reads =
     (if i < N
      then (if load_ptr mem (that + offsets ! i) = 0
            then (0, reads @ [that + offsets ! i])
            else obtain_loop mem offsets N (Suc i) (load_ptr mem (that + offsets ! i))
                   (reads @ [that + offsets ! i]))
      else (that + offsets ! N, reads))"
  by pat_completeness auto
termination
  by (relation "measure (\<lambda>(mem, offsets, N, i, that, reads). N - i)") auto

declare obtain_loop.simps [simp del]

definition relocation_obtain :: "memory \<Rightarrow> addr \<Rightarrow> nat \<Rightarrow> addr list \<Rightarrow> addr" where
  "relocation_obtain mem skyrim_base N offsets = fst (obtain_loop mem offsets N 0 skyrim_base [])"

definition relocation_reads :: "memory \<Rightarrow> addr \<Rightarrow> nat \<Rightarrow> addr list \<Rightarrow> addr list" where
  "relocation_reads mem skyrim_base N offsets = snd (obtain_loop mem offsets N 0 skyrim_base [])"

text \<open>
  The resolver in the words of the specification: the cursor after \<open>i\<close> hops, each hop
  being the pointer-sized value read at cursor plus offset, and the address hop \<open>i\<close> reads.
\<close>

fun cursor :: "memory \<Rightarrow> addr \<Rightarrow> addr list \<Rightarrow> nat \<Rightarrow> addr" where
  "cursor mem base offsets 0 = base"
| "cursor mem base offsets (Suc i) = load_ptr mem (cursor mem base offsets i + offsets ! i)"

definition hop_address :: "memory \<Rightarrow> addr \<Rightarrow> addr list \<Rightarrow> nat \<Rightarrow> addr" where
  "hop_address mem base offsets i = cursor mem base offsets i + offsets ! i"

text \<open>The four global chains (lines 93, 106, 110, 119), with \<open>N = 1, 1, 3, 3\<close>.\<close>

record chains =
  game_epoch :: "addr list"
  player_pos :: "addr list"
  player_cell :: "addr list"
  worldspace_name :: "addr list"

definition initial_chains :: chains where
  "initial_chains =
     \<lparr>game_epoch = [0x1ec3bc8, 0x34],
      player_pos = [0x2f26ef8, 0x54],
      player_cell = [0x2f26ef8, 0x60, 0x28, 0],
      worldspace_name = [0x2f26ef8, 0x628, 0x28, 0x00]\<rparr>"

subsection \<open>IEEE binary32\<close>

text \<open>
  A float is its 32 bits: sign, 8 bits of biased exponent, 23 bits of fraction.  A finite
  float is \<open>significand * 2 ^ scale\<close>, negated when the sign bit is set.
\<close>

definition float_sign :: "float32 \<Rightarrow> bool" where
  "float_sign x = (2 ^ 31 \<le> unat x)"

definition float_exponent :: "float32 \<Rightarrow> nat" where
  "float_exponent x = (unat x div 2 ^ 23) mod 2 ^ 8"

definition float_fraction :: "float32 \<Rightarrow> nat" where
  "float_fraction x = unat x mod 2 ^ 23"

definition isnan :: "float32 \<Rightarrow> bool" where
  "isnan x = (float_exponent x = 255 \<and> float_fraction x \<noteq> 0)"

definition isfinite :: "float32 \<Rightarrow> bool" where
  "isfinite x = (float_exponent x \<noteq> 255)"

definition isnormal :: "float32 \<Rightarrow> bool" where
  "isnormal x = (float_exponent x \<noteq> 0 \<and> float_exponent x \<noteq> 255)"

definition is_zero :: "float32 \<Rightarrow> bool" where
  "is_zero x = (float_exponent x = 0 \<and> float_fraction x = 0)"

definition significand :: "float32 \<Rightarrow> nat" where
  "significand x = (if float_exponent x = 0 then float_fraction x else 2 ^ 23 + float_fraction x)"

definition scale :: "float32 \<Rightarrow> int" where
  "scale x = (if float_exponent x = 0 then - 149 else int (float_exponent x) - 150)"

text \<open>\<open>x < 0\<close> for a float \<open>x\<close>: false for a NaN and for either zero.\<close>

definition float_less_zero :: "float32 \<Rightarrow> bool" where
  "float_less_zero x = (float_sign x \<and> \<not> isnan x \<and> \<not> is_zero x)"

definition pack_float :: "bool \<Rightarrow> nat \<Rightarrow> nat \<Rightarrow> float32" where
  "pack_float s e f = of_nat ((if s then 2 ^ 31 else 0) + e * 2 ^ 23 + f)"

definition quiet_nan :: float32 where
  "quiet_nan = 0xFFC00000"

fun bit_length :: "nat \<Rightarrow> nat" where
  "bit_length n = (if n = 0 then 0 else Suc (bit_length (n div 2)))"

declare bit_length.simps [simp del]

text \<open>\<open>m / 2 ^ k\<close> rounded to the nearest integer, a tie to the even one.\<close>

definition round_half_even :: "nat \<Rightarrow> nat \<Rightarrow> nat" where
  "round_half_even m k =
     (if m mod 2 ^ k > 2 ^ (k - 1) \<or> (m mod 2 ^ k = 2 ^ (k - 1) \<and> odd (m div 2 ^ k))
      then m div 2 ^ k + 1 else m div 2 ^ k)"

text \<open>
  The float nearest to \<open>m * 2 ^ e\<close> with the given sign: \<open>te\<close> is the exponent of the last
  kept bit (at least that of the subnormals), \<open>q\<close> the rounded significand; a carry out of
  24 bits moves to the next exponent, and past the largest exponent the result is infinite.
\<close>

definition round_to_float :: "bool \<Rightarrow> nat \<Rightarrow> int \<Rightarrow> float32" where
  "round_to_float s m e =
     (if m = 0 then pack_float s 0 0
      else
        let te = max (e + int (bit_length m) - 24) (- 149);
            q = (if te \<le> e then m * 2 ^ nat (e - te) else round_half_even m (nat (te - e)));
            te' = (if q = 2 ^ 24 then te + 1 else te);
            q' = (if q = 2 ^ 24 then 2 ^ 23 else q)
        in if te' > 104 then pack_float s 255 0
           else if q' < 2 ^ 23 then pack_float s 0 q'
           else pack_float s (nat (te' + 150)) (q' - 2 ^ 23))"

text \<open>
  \<open>int (x)\<close> for a float \<open>x\<close>: the value truncated towards zero.  When that is not an
  \<open>int\<close> the conversion is undefined in C++; the x86-64 instruction the compilers emit
  (\<open>cvttss2si\<close>) then gives \<open>INT_MIN\<close>, as it does for a NaN or an infinity.
\<close>

definition float_trunc :: "float32 \<Rightarrow> int" where
  "float_trunc x =
     (let mag = (if 0 \<le> scale x then significand x * 2 ^ nat (scale x)
                 else significand x div 2 ^ nat (- scale x))
      in if float_sign x then - int mag else int mag)"

definition float_to_int :: "float32 \<Rightarrow> int" where
  "float_to_int x =
     (if isfinite x \<and> - (2 ^ 31) \<le> float_trunc x \<and> float_trunc x < 2 ^ 31
      then float_trunc x else - (2 ^ 31))"

definition int_to_float :: "int \<Rightarrow> float32" where
  "int_to_float i = round_to_float (i < 0) (nat \<bar>i\<bar>) 0"

text \<open>The signed significand of a finite float at the exponent \<open>e \<le> scale x\<close>.\<close>

definition aligned :: "float32 \<Rightarrow> int \<Rightarrow> int" where
  "aligned x e =
     (if float_sign x then - int (significand x * 2 ^ nat (scale x - e))
      else int (significand x * 2 ^ nat (scale x - e)))"

text \<open>
  Subtraction and multiplication: the exact result, rounded.  A NaN result is the default
  quiet NaN (only its class is ever looked at).
\<close>

definition fsub :: "float32 \<Rightarrow> float32 \<Rightarrow> float32" where
  "fsub a b =
     (if isnan a \<or> isnan b then quiet_nan
      else if \<not> isfinite a then (if \<not> isfinite b \<and> float_sign a = float_sign b then quiet_nan else a)
      else if \<not> isfinite b then pack_float (\<not> float_sign b) 255 0
      else
        let e = min (scale a) (scale b);
            d = aligned a e - aligned b e
        in if d = 0 then pack_float (float_sign a \<and> \<not> float_sign b \<and> is_zero a \<and> is_zero b) 0 0
           else round_to_float (d < 0) (nat \<bar>d\<bar>) e)"

definition fmul :: "float32 \<Rightarrow> float32 \<Rightarrow> float32" where
  "fmul a b =
     (if isnan a \<or> isnan b then quiet_nan
      else if \<not> isfinite a \<or> \<not> isfinite b
      then (if is_zero a \<or> is_zero b then quiet_nan
            else pack_float (float_sign a \<noteq> float_sign b) 255 0)
      else round_to_float (float_sign a \<noteq> float_sign b)
             (significand a * significand b) (scale a + scale b))"

text \<open>\<open>x / 4096\<close>: the divisor is \<open>2 ^ 12\<close>, so the exact quotient only moves the exponent.\<close>

definition fdiv_4096 :: "float32 \<Rightarrow> float32" where
  "fdiv_4096 x =
     (if isnan x then quiet_nan
      else if \<not> isfinite x then x
      else round_to_float (float_sign x) (significand x) (scale x - 12))"

text \<open>\<open>std::floor\<close> on a float: the largest integral float not above \<open>x\<close>.\<close>

definition float_floor :: "float32 \<Rightarrow> float32" where
  "float_floor x =
     (if \<not> isfinite x \<or> is_zero x \<or> 0 \<le> scale x then x
      else int_to_float ((if float_sign x then - int (significand x) else int (significand x))
                          div 2 ^ nat (- scale x)))"

subsection \<open>32-bit \<open>int\<close> arithmetic\<close>

text \<open>
  Addition and subtraction wrap around on the target; \<open>/\<close> and \<open>%\<close> truncate towards
  zero.
\<close>

definition add32 :: "int \<Rightarrow> int \<Rightarrow> int" where
  "add32 a b = signed_take_bit 31 (a + b)"

definition sub32 :: "int \<Rightarrow> int \<Rightarrow> int" where
  "sub32 a b = signed_take_bit 31 (a - b)"

definition c_div :: "int \<Rightarrow> int \<Rightarrow> int" where
  "c_div a b = sgn a * sgn b * (\<bar>a\<bar> div \<bar>b\<bar>)"

definition c_mod :: "int \<Rightarrow> int \<Rightarrow> int" where
  "c_mod a b = sgn a * (\<bar>a\<bar> mod \<bar>b\<bar>)"

text \<open>\<open>a[i]\<close> on a \<open>std::array\<close>: no value outside the array.\<close>

definition subscript :: "'a list \<Rightarrow> int \<Rightarrow> 'a option" where
  "subscript xs i = (if 0 \<le> i \<and> i < int (length xs) then Some (xs ! nat i) else None)"

text \<open>
  \<open>std::lower_bound\<close> on a sorted range: the position of the first element that is not
  less than the value, the end position when there is none.
\<close>

definition lower_bound :: "int list \<Rightarrow> int \<Rightarrow> nat" where
  "lower_bound xs v = length (takeWhile (\<lambda>x. x < v) xs)"

subsection \<open>Strings (lines 124-133)\<close>

text \<open>
  \<open>std::string::find (search, pos)\<close>: the first position at or after \<open>pos\<close> where
  \<open>search\<close> occurs, \<open>None\<close> for \<open>npos\<close>.
\<close>

fun find_first :: "string \<Rightarrow> string \<Rightarrow> nat option" where
  "find_first [] search = (if search = [] then Some 0 else None)"
| "find_first (c # cs) search =
     (if prefix search (c # cs) then Some 0 else map_option Suc (find_first cs search))"

definition string_find :: "string \<Rightarrow> string \<Rightarrow> nat \<Rightarrow> nat option" where
  "string_find data search pos =
     (if pos > length data then None
      else map_option (\<lambda>i. pos + i) (find_first (drop pos data) search))"

text \<open>
  \<open>std::string::replace (pos, len, str)\<close>.  It throws when \<open>pos\<close> is past the end;
  \<open>replace_all\<close> passes a position that \<open>find\<close> returned, which never is.
\<close>

definition string_replace :: "string \<Rightarrow> nat \<Rightarrow> nat \<Rightarrow> string \<Rightarrow> string" where
  "string_replace data pos len str = take pos data @ str @ drop (pos + len) data"

text \<open>
  The \<open>while\<close> loop of \<open>replace_all\<close>, with \<open>n\<close> the position last found and the current
  contents of \<open>data\<close> the result.  \<open>None\<close> as the result: the loop does not end.
\<close>

partial_function (option) replace_all_loop ::
  "string \<Rightarrow> string \<Rightarrow> string \<Rightarrow> nat option \<Rightarrow> string option" where
  "replace_all_loop data search replace n =
     (if n \<noteq> None
      then replace_all_loop (string_replace data (the n) (length search) replace) search replace
             (string_find (string_replace data (the n) (length search) replace) search
                (the n + length replace))
      else Some data)"

declare replace_all_loop.simps [code]

definition replace_all :: "string \<Rightarrow> string \<Rightarrow> string \<Rightarrow> string option" where
  "replace_all data search replace =
     replace_all_loop data search replace (string_find data search 0)"

text \<open>
  Substitution in the words of the specification: from left to right, each occurrence of
  the token gives way to the replacement and the scan goes on in the text behind the
  occurrence; what has been put out is never looked at again.
\<close>

fun substitute :: "string \<Rightarrow> string \<Rightarrow> string \<Rightarrow> string" where
  "substitute [] token replacement = []"
| "substitute (c # cs) token replacement =
     (if token \<noteq> [] \<and> prefix token (c # cs)
      then replacement @ substitute (drop (length token - 1) cs) token replacement
      else c # substitute cs token replacement)"

text \<open>\<open>std::to_string (int)\<close>: decimal digits, a minus sign in front of a negative number.\<close>

fun digits :: "nat \<Rightarrow> string" where
  "digits n = (if n < 10 then [''0123456789'' ! n]
               else digits (n div 10) @ [''0123456789'' ! (n mod 10)])"

declare digits.simps [simp del]

definition to_string :: "int \<Rightarrow> string" where
  "to_string i = (if i < 0 then CHR ''-'' # digits (nat (- i)) else digits (nat i))"

text \<open>
  The C library's rendering of a float is not part of the repository and is a parameter:
  \<open>printf_f0 x\<close> are the characters \<open>"%.0f"\<close> produces for \<open>x\<close>, \<open>to_string_float x\<close> is
  \<open>std::to_string (x)\<close>.
\<close>

record libc =
  printf_f0 :: "float32 \<Rightarrow> string"
  to_string_float :: "float32 \<Rightarrow> string"

subsection \<open>The player's location (lines 139-169)\<close>

text \<open>
  The text of one coordinate (lines 149-150): \<open>snprintf\<close> stores at most 14 characters
  and a terminator into the 15 bytes and returns the length of the whole rendering; the
  string is then resized to that length, which fills it up with zero bytes.
\<close>

definition coordinate_text :: "libc \<Rightarrow> float32 \<Rightarrow> string" where
  "coordinate_text lc x =
     (if length (printf_f0 lc x) < 15 then printf_f0 lc x
      else take 14 (printf_f0 lc x) @ replicate (length (printf_f0 lc x) - 14) (CHR 0x00))"

definition cell_coordinate :: "float32 \<Rightarrow> string" where
  "cell_coordinate x = to_string (float_to_int (float_floor (fdiv_4096 x)))"

text \<open>\<open>pos[i]\<close>: the floats are four bytes apart.\<close>

definition pos_at :: "memory \<Rightarrow> addr \<Rightarrow> nat \<Rightarrow> float32" where
  "pos_at mem pos i = load_float mem (pos + 4 * of_nat i)"

text \<open>
  A name behind a chain (lines 160-166): the text at the pointer, the empty text for the
  null pointer.
\<close>

definition name_text :: "memory \<Rightarrow> addr \<Rightarrow> string" where
  "name_text mem p = (if p \<noteq> 0 then load_cstr mem p else [])"

definition player_location :: "libc \<Rightarrow> memory \<Rightarrow> addr \<Rightarrow> chains \<Rightarrow> string \<Rightarrow> string option" where
  "player_location lc mem skyrim_base ch format =
     (if relocation_obtain mem skyrim_base 1 (player_pos ch) = 0
         \<or> \<not> isfinite (pos_at mem (relocation_obtain mem skyrim_base 1 (player_pos ch)) 0)
         \<or> \<not> isfinite (pos_at mem (relocation_obtain mem skyrim_base 1 (player_pos ch)) 1)
         \<or> \<not> isfinite (pos_at mem (relocation_obtain mem skyrim_base 1 (player_pos ch)) 2)
      then Some ''(n/a)''
      else do {
        let pos = relocation_obtain mem skyrim_base 1 (player_pos ch);
        format \<leftarrow> replace_all format ''%x'' (coordinate_text lc (pos_at mem pos 0));
        format \<leftarrow> replace_all format ''%y'' (coordinate_text lc (pos_at mem pos 1));
        format \<leftarrow> replace_all format ''%z'' (coordinate_text lc (pos_at mem pos 2));
        format \<leftarrow> replace_all format ''%cx'' (cell_coordinate (pos_at mem pos 0));
        format \<leftarrow> replace_all format ''%cy'' (cell_coordinate (pos_at mem pos 1));
        format \<leftarrow> replace_all format ''%wn''
                   (name_text mem (relocation_obtain mem skyrim_base 3 (worldspace_name ch)));
        format \<leftarrow> replace_all format ''%cn''
                   (name_text mem (relocation_obtain mem skyrim_base 3 (player_cell ch)));
        Some format
      })"

text \<open>
  The location formatter in the words of the specification: the five coordinate escapes,
  then the two names, each by substitution.
\<close>

definition coordinates_substituted :: "libc \<Rightarrow> float32 \<Rightarrow> float32 \<Rightarrow> float32 \<Rightarrow> string \<Rightarrow> string" where
  "coordinates_substituted lc px py pz format =
     substitute (substitute (substitute (substitute (substitute format
       ''%x'' (coordinate_text lc px))
       ''%y'' (coordinate_text lc py))
       ''%z'' (coordinate_text lc pz))
       ''%cx'' (cell_coordinate px))
       ''%cy'' (cell_coordinate py)"

definition names_substituted :: "string \<Rightarrow> string \<Rightarrow> string \<Rightarrow> string" where
  "names_substituted world cell format = substitute (substitute format ''%wn'' world) ''%cn'' cell"

subsection \<open>The calendar (lines 200-274)\<close>

text \<open>The value of \<open>hms\<close> after lines 209, 211 and in line 213.\<close>

definition hms_hours :: "float32 \<Rightarrow> float32" where
  "hms_hours source = fmul (fsub source (int_to_float (float_to_int source))) (int_to_float 24)"

definition hms_minutes :: "float32 \<Rightarrow> float32" where
  "hms_minutes source =
     fmul (fsub (hms_hours source) (int_to_float (float_to_int (hms_hours source))))
       (int_to_float 60)"

definition hms_seconds :: "float32 \<Rightarrow> float32" where
  "hms_seconds source =
     fmul (fsub (hms_minutes source) (int_to_float (float_to_int (hms_minutes source))))
       (int_to_float 60)"

definition months :: "int list" where
  "months = [31, 59, 90, 120, 151, 181, 212, 243, 273, 304, 334, 365]"

definition month_index :: "int \<Rightarrow> nat" where
  "month_index yd = lower_bound months yd"

definition month_day :: "int \<Rightarrow> int" where
  "month_day yd =
     (if month_index yd \<noteq> 0 then sub32 yd (months ! (month_index yd - 1)) else yd)"

text \<open>The local variables of lines 209-224, under their names with \<open>cal_\<close> in front.\<close>

record calendar =
  cal_h :: int
  cal_m :: int
  cal_s :: int
  cal_d :: int
  cal_y :: int
  cal_yd :: int
  cal_wd :: int
  cal_mo :: nat
  cal_md :: int

definition game_calendar :: "float32 \<Rightarrow> calendar" where
  "game_calendar source =
     \<lparr>cal_h = float_to_int (hms_hours source),
      cal_m = float_to_int (hms_minutes source),
      cal_s = float_to_int (hms_seconds source),
      cal_d = add32 (float_to_int source) 228,
      cal_y = add32 (c_div (add32 (float_to_int source) 228) 365) 201,
      cal_yd = add32 (c_mod (add32 (float_to_int source) 228) 365) 1,
      cal_wd = c_mod (add32 (add32 (float_to_int source) 228) 3) 7,
      cal_mo = month_index (add32 (c_mod (add32 (float_to_int source) 228) 365) 1),
      cal_md = month_day (add32 (c_mod (add32 (float_to_int source) 228) 365) 1)\<rparr>"

definition longmon :: "string list" where
  "longmon =
     [''Morning Star'', ''Sun'' @ [CHR 0x27] @ ''s Dawn'', ''First Seed'',
      ''Rain'' @ [CHR 0x27] @ ''s Hand'', ''Second Seed'', ''Midyear'',
      ''Sun'' @ [CHR 0x27] @ ''s Height'', ''Last Seed'', ''Hearthfire'', ''Frostfall'',
      ''Sun'' @ [CHR 0x27] @ ''s Dusk'', ''Evening Star'']"

definition birtmon :: "string list" where
  "birtmon =
     [''The Ritual'', ''The Lover'', ''The Lord'', ''The Mage'', ''The Shadow'', ''The Steed'',
      ''The Apprentice'', ''The Warrior'', ''The Lady'', ''The Tower'', ''The Atronach'',
      ''The Thief'']"

definition argomon :: "string list" where
  "argomon =
     [''Vakka (Sun)'', ''Xeech (Nut)'', ''Sisei (Sprout)'', ''Hist-Deek (Hist Sapling)'',
      ''Hist-Dooka (Mature Hist)'', ''Hist-Tsoko (Elder Hist)'', ''Thtithil-Gah (Egg-Basket)'',
      ''Thtithil (Egg)'', ''Nushmeeko (Lizard)'', ''Shaja-Nushmeeko (Semi-Humanoid Lizard)'',
      ''Saxhleel (Argonian)'', ''Xulomaht (The Deceased)'']"

definition longwday :: "string list" where
  "longwday = [''Sundas'', ''Morndas'', ''Tirdas'', ''Middas'', ''Turdas'', ''Fredas'', ''Loredas'']"

definition shrtwday :: "string list" where
  "shrtwday = [''Sun'', ''Mor'', ''Tir'', ''Mid'', ''Tur'', ''Fre'', ''Lor'']"

text \<open>Lines 226-273: the replacements in the order of the source.\<close>

definition game_time_format :: "libc \<Rightarrow> float32 \<Rightarrow> calendar \<Rightarrow> string \<Rightarrow> string option" where
  "game_time_format lc source c format =
     do {
       format \<leftarrow> replace_all format ''%y'' (to_string (cal_y c));
       format \<leftarrow> replace_all format ''%Y'' (''4E'' @ to_string (cal_y c));
       lm \<leftarrow> subscript longmon (int (cal_mo c));
       format \<leftarrow> replace_all format ''%lm'' lm;
       bm \<leftarrow> subscript birtmon (int (cal_mo c));
       format \<leftarrow> replace_all format ''%bm'' bm;
       am \<leftarrow> subscript argomon (int (cal_mo c));
       format \<leftarrow> replace_all format ''%am'' am;
       format \<leftarrow> replace_all format ''%mo'' (to_string (add32 (int (cal_mo c)) 1));
       format \<leftarrow> replace_all format ''%md'' (to_string (cal_md c));
       sd \<leftarrow> subscript shrtwday (cal_wd c);
       format \<leftarrow> replace_all format ''%sd'' sd;
       ld \<leftarrow> subscript longwday (cal_wd c);
       format \<leftarrow> replace_all format ''%ld'' ld;
       format \<leftarrow> replace_all format ''%wd'' (to_string (add32 (cal_wd c) 1));
       format \<leftarrow> replace_all format ''%h'' (to_string (cal_h c));
       format \<leftarrow> replace_all format ''%m'' (to_string (cal_m c));
       format \<leftarrow> replace_all format ''%s'' (to_string (cal_s c));
       format \<leftarrow> replace_all format ''%ri'' (to_string (cal_d c));
       format \<leftarrow> replace_all format ''%r'' (to_string_float lc source);
       Some format
     }"

definition game_time :: "libc \<Rightarrow> memory \<Rightarrow> addr \<Rightarrow> chains \<Rightarrow> string \<Rightarrow> string option" where
  "game_time lc mem skyrim_base ch format =
     (if relocation_obtain mem skyrim_base 1 (game_epoch ch) = 0
         \<or> \<not> isnormal (load_float mem (relocation_obtain mem skyrim_base 1 (game_epoch ch)))
         \<or> float_less_zero (load_float mem (relocation_obtain mem skyrim_base 1 (game_epoch ch)))
      then Some ''(n/a)''
      else game_time_format lc
             (load_float mem (relocation_obtain mem skyrim_base 1 (game_epoch ch)))
             (game_calendar (load_float mem (relocation_obtain mem skyrim_base 1 (game_epoch ch))))
             format)"

text \<open>The epoch chain resolves and the float at its leaf is \<open>x\<close>.\<close>

definition epoch_reads :: "memory \<Rightarrow> addr \<Rightarrow> chains \<Rightarrow> float32 \<Rightarrow> bool" where
  "epoch_reads mem skyrim_base ch x =
     (relocation_obtain mem skyrim_base 1 (game_epoch ch) \<noteq> 0
      \<and> load_float mem (relocation_obtain mem skyrim_base 1 (game_epoch ch)) = x)"

text \<open>
  The calendar escapes in the words of the specification: the tokens with their
  replacements for a calendar value whose month and weekday lie in the name tables, applied
  in this order by substitution.
\<close>

definition calendar_escapes :: "libc \<Rightarrow> float32 \<Rightarrow> calendar \<Rightarrow> (string \<times> string) list" where
  "calendar_escapes lc source c =
     [(''%y'', to_string (cal_y c)),
      (''%Y'', ''4E'' @ to_string (cal_y c)),
      (''%lm'', longmon ! cal_mo c),
      (''%bm'', birtmon ! cal_mo c),
      (''%am'', argomon ! cal_mo c),
      (''%mo'', to_string (int (cal_mo c) + 1)),
      (''%md'', to_string (cal_md c)),
      (''%sd'', shrtwday ! nat (cal_wd c)),
      (''%ld'', longwday ! nat (cal_wd c)),
      (''%wd'', to_string (cal_wd c + 1)),
      (''%h'', to_string (cal_h c)),
      (''%m'', to_string (cal_m c)),
      (''%s'', to_string (cal_s c)),
      (''%ri'', to_string (cal_d c)),
      (''%r'', to_string_float lc source)]"

definition calendar_tokens :: "string list" where
  "calendar_tokens =
     [''%y'', ''%Y'', ''%lm'', ''%bm'', ''%am'', ''%mo'', ''%md'', ''%sd'', ''%ld'', ''%wd'',
      ''%h'', ''%m'', ''%s'', ''%ri'', ''%r'']"

definition location_tokens :: "string list" where
  "location_tokens = [''%x'', ''%y'', ''%z'', ''%cx'', ''%cy'', ''%wn'', ''%cn'']"

definition substitute_all :: "(string \<times> string) list \<Rightarrow> string \<Rightarrow> string" where
  "substitute_all escapes format = foldl (\<lambda>text (token, replacement). substitute text token replacement) format escapes"

subsection \<open>The catalogue (lines 288-362)\<close>

text \<open>
  The function bound to a variable's \<open>apply\<close>: each of the three lambdas calls one
  formatter on the variable's \<open>params\<close>.
\<close>

datatype converter = Game_time | Player_location | Local_time

text \<open>
  Modelled from the spec: the declaration of \<open>variable_t\<close> (sse-journal.hpp) is not among
  the sources.  A format variable has an identifier, a deletability flag, a name, a help
  text, its format string and the render function bound to it; the fields are the ones
  \<open>make_variables\<close> assigns (\<open>applies\<close> for \<open>apply\<close>).  The help text \<open>info\<close> takes no
  part in rendering and is left out.
\<close>

record variable_t =
  fuid :: int
  deletable :: bool
  name :: string
  params :: string
  applies :: converter

text \<open>
  \<open>sseh.find_target (name, &slot)\<close> belongs to the address library, outside the
  repository: a parameter that gives the new contents of the slot from the name and the
  old contents; \<open>None\<close> is the null function pointer.
\<close>

definition wire :: "(string \<Rightarrow> addr \<Rightarrow> addr) \<Rightarrow> chains \<Rightarrow> chains" where
  "wire find_target ch =
     (let ge = (game_epoch ch)[0 := find_target ''GameTime'' (game_epoch ch ! 0)];
          ge = ge[1 := find_target ''GameTime.Offset'' (ge ! 1)];
          pp = (player_pos ch)[0 := find_target ''PlayerCharacter'' (player_pos ch ! 0)];
          pp = pp[1 := find_target ''PlayerCharacter.Position'' (pp ! 1)];
          pc = (player_cell ch)[1 := find_target ''PlayerCharacter.Cell'' (player_cell ch ! 1)];
          wn = (worldspace_name ch)
                 [1 := find_target ''PlayerCharacter.Worldspace'' (worldspace_name ch ! 1)];
          wn = wn[2 := find_target ''Worldspace.Fullname'' (wn ! 2)];
          pc = pc[2 := find_target ''Cell.Fullname'' (pc ! 2)];
          wn = wn[0 := pp ! 0];
          pc = pc[0 := pp ! 0]
      in \<lparr>game_epoch = ge, player_pos = pp, player_cell = pc, worldspace_name = wn\<rparr>)"

definition gtime :: variable_t where
  "gtime = \<lparr>fuid = 1, deletable = False, name = ''Game time (fixed)'',
            params = ''%h:%m %ld, day %md of %lm, %Y'', applies = Game_time\<rparr>"

definition ppos :: variable_t where
  "ppos = \<lparr>fuid = 3, deletable = False, name = ''Player position (fixed)'',
           params = ''%wn, %cn: %x %y %z'', applies = Player_location\<rparr>"

definition ltime :: variable_t where
  "ltime = \<lparr>fuid = 2, deletable = False, name = ''Local time (fixed)'',
            params = ''%X %x'', applies = Local_time\<rparr>"

text \<open>
  \<open>make_variables\<close>: the wiring of the chains when the address library is present, then
  the catalogue.  The variables for the game time and the player position are added only
  when the root offset of their chain is not zero.  The result is the chains as left
  behind and the catalogue; \<open>skyrim_base\<close>, which the function also sets from the module
  handle, is a parameter of the formatters.
\<close>

definition make_variables :: "(string \<Rightarrow> addr \<Rightarrow> addr) option \<Rightarrow> chains \<times> variable_t list" where
  "make_variables find_target =
     (let ch = (case find_target of None \<Rightarrow> initial_chains | Some f \<Rightarrow> wire f initial_chains)
      in (ch,
          (if game_epoch ch ! 0 \<noteq> 0 then [gtime] else [])
          @ (if player_pos ch ! 0 \<noteq> 0 then [ppos] else [])
          @ [ltime]))"

text \<open>
  The chains a formatter resolves when it renders: \<open>game_epoch\<close> in \<open>game_time\<close>
  (line 203); \<open>player_pos\<close>, \<open>worldspace_name\<close> and \<open>player_cell\<close> in
  \<open>player_location\<close> (lines 142, 160, 164); none in \<open>local_time\<close>.
\<close>

fun resolved_chains :: "converter \<Rightarrow> chains \<Rightarrow> addr list list" where
  "resolved_chains Game_time ch = [game_epoch ch]"
| "resolved_chains Player_location ch = [player_pos ch, worldspace_name ch, player_cell ch]"
| "resolved_chains Local_time ch = []"

text \<open>Memories and parameters for concrete runs.\<close>

definition epoch_memory :: "float32 \<Rightarrow> memory" where
  "epoch_memory x = memory_of [(0x141ec3bc8, 0x20000000)] [(0x20000034, x)] []"

definition location_memory :: memory where
  "location_memory =
     memory_of [(0x142f26ef8, 0x30000000)]
       [(0x30000054, 0x3F800000), (0x30000058, 0x40000000), (0x3000005C, 0x40400000)] []"

definition no_targets :: "string \<Rightarrow> addr \<Rightarrow> addr" where
  "no_targets target slot = 0"

definition blank_libc :: libc where
  "blank_libc = \<lparr>printf_f0 = (\<lambda>x. ''0''), to_string_float = (\<lambda>x. ''0.000000'')\<rparr>"

section \<open>The replacement loop\<close>

lemma find_first_None: "find_first xs s = None \<Longrightarrow> substitute xs s r = xs"
  by (induction xs) (auto split: if_splits)

lemma find_first_Some:
  "s \<noteq> [] \<Longrightarrow> find_first xs s = Some k \<Longrightarrow>
     substitute xs s r = take k xs @ r @ substitute (drop (k + length s) xs) s r
     \<and> k + length s \<le> length xs"
proof (induction xs arbitrary: k)
  case Nil
  then show ?case by simp
next
  case (Cons c cs)
  show ?case
  proof (cases "prefix s (c # cs)")
    case True
    with Cons.prems have k: "k = 0" by simp
    from True have "length s \<le> Suc (length cs)"
      using prefix_length_le by fastforce
    moreover from Cons.prems(1) have "drop (length s) (c # cs) = drop (length s - 1) cs"
      by (cases s) simp_all
    ultimately show ?thesis using True Cons.prems(1) k by simp
  next
    case False
    with Cons.prems obtain k' where k': "find_first cs s = Some k'" "k = Suc k'"
      by auto
    from Cons.IH[OF Cons.prems(1) k'(1)] False k'(2) show ?thesis by simp
  qed
qed

text \<open>
  The loop invariant: when the loop is entered with the result of a search from \<open>start\<close>,
  the text before \<open>start\<close> is final and the text from \<open>start\<close> on is still to be
  substituted.  The distance from \<open>start\<close> to the end shrinks with every round, by the
  length of the token.
\<close>

lemma replace_all_loop_correct:
  "s \<noteq> [] \<Longrightarrow> start \<le> length data \<Longrightarrow>
     replace_all_loop data s r (string_find data s start)
       = Some (take start data @ substitute (drop start data) s r)"
proof (induction "length data - start" arbitrary: data start rule: less_induct)
  case less
  show ?case
  proof (cases "find_first (drop start data) s")
    case None
    then have "string_find data s start = None"
      using less.prems by (simp add: string_find_def)
    then show ?thesis
      using find_first_None[OF None, of r] by (simp add: replace_all_loop.simps)
  next
    case (Some k)
    let ?i = "start + k"
    let ?d = "string_replace data ?i (length s) r"
    from find_first_Some[OF less.prems(1) Some, of r]
    have sub: "substitute (drop start data) s r
                 = take k (drop start data) @ r @ substitute (drop (k + length s) (drop start data)) s r"
      and le: "k + length s \<le> length (drop start data)" by simp_all
    from le less.prems(2) have le': "?i + length s \<le> length data" by simp
    have find: "string_find data s start = Some ?i"
      using less.prems Some by (simp add: string_find_def)
    have len: "?i + length r \<le> length ?d"
      using le' by (simp add: string_replace_def)
    have pos: "0 < length s"
      using less.prems(1) by simp
    have "length ?d = ?i + length r + (length data - (?i + length s))"
      using le' by (simp add: string_replace_def)
    with le' pos have meas: "length ?d - (?i + length r) < length data - start"
      by linarith
    have tk: "take (?i + length r) ?d = take ?i data @ r"
      using le' by (simp add: string_replace_def)
    have dr: "drop (?i + length r) ?d = drop (?i + length s) data"
      using le' by (simp add: string_replace_def)
    have "replace_all_loop data s r (string_find data s start)
            = replace_all_loop ?d s r (string_find ?d s (?i + length r))"
      by (subst replace_all_loop.simps) (simp add: find)
    also have "\<dots> = Some (take (?i + length r) ?d @ substitute (drop (?i + length r) ?d) s r)"
      by (rule less.hyps[OF meas less.prems(1) len])
    also have "\<dots> = Some ((take ?i data @ r) @ substitute (drop (?i + length s) data) s r)"
      by (simp only: tk dr)
    also have "take ?i data = take start data @ take k (drop start data)"
      by (simp add: take_add)
    also have "drop (?i + length s) data = drop (k + length s) (drop start data)"
      by (simp add: ac_simps)
    finally show ?thesis by (simp add: sub)
  qed
qed

lemma replace_all_total: "s \<noteq> [] \<Longrightarrow> replace_all data s r = Some (substitute data s r)"
  using replace_all_loop_correct[of s 0 data r] by (simp add: replace_all_def)

text \<open>
  With the empty token every search succeeds where it starts, so the loop never sees
  \<open>npos\<close>: no run of the loop from such a state produces a result.
\<close>

lemma replace_all_loop_empty_token:
  assumes "replace_all_loop data0 s0 r0 n0 = Some y0"
  shows "\<not> (s0 = [] \<and> (\<exists>i. n0 = Some i \<and> i \<le> length data0))"
proof (rule replace_all_loop.raw_induct
    [where P = "\<lambda>d s r n y. \<not> (s = [] \<and> (\<exists>i. n = Some i \<and> i \<le> length d))", OF _ assms],
    goal_cases)
  case (1 f data s r n y)
  show ?case
  proof
    assume "s = [] \<and> (\<exists>i. n = Some i \<and> i \<le> length data)"
    then obtain i where s: "s = []" and n: "n = Some i" and i: "i \<le> length data" by blast
    let ?d = "string_replace data i 0 r"
    have "string_find ?d [] (i + length r) = Some (i + length r)"
      using i by (cases "drop (i + length r) ?d") (simp_all add: string_find_def string_replace_def)
    with 1(2) s n have "f ?d [] r (Some (i + length r)) = Some y" by simp
    from 1(1)[OF this] i show False by (simp add: string_replace_def)
  qed
qed

lemma replace_all_empty_token: "replace_all data [] r = None"
proof (cases "replace_all data [] r")
  case (Some y)
  have "string_find data [] 0 = Some 0"
    by (cases data) (simp_all add: string_find_def)
  with Some replace_all_loop_empty_token[of data "[]" r "Some 0" y] show ?thesis
    by (simp add: replace_all_def)
qed simp

lemma find_first_None_iff: "find_first xs s = None \<longleftrightarrow> \<not> sublist s xs"
  by (induction xs) (auto simp: sublist_Cons_right)

lemma substitute_absent: "\<not> sublist token text \<Longrightarrow> substitute text token replacement = text"
  by (simp add: find_first_None find_first_None_iff)

lemma replace_all_absent: "\<not> sublist token text \<Longrightarrow> replace_all text token replacement = Some text"
proof -
  assume a: "\<not> sublist token text"
  then have "token \<noteq> []" by auto
  with a show ?thesis by (simp add: replace_all_total substitute_absent)
qed

text \<open>
  C5.  For a token that is not empty, \<open>replace_all\<close> returns the substitution of the
  specification: every occurrence replaced from left to right, the scan resuming behind
  each inserted replacement, which is therefore never expanded again, also when it contains
  the token.  In particular replacing \<open>%x\<close> by \<open>%x%x\<close> in \<open>%x\<close> gives exactly \<open>%x%x\<close>.
\<close>

theorem replace_all_single_pass:
  "(search \<noteq> [] \<longrightarrow> replace_all data search replace = Some (substitute data search replace))
   \<and> replace_all ''%x'' ''%x'' ''%x%x'' = Some ''%x%x''"
  by (simp add: replace_all_total)

theorem replace_all_single_pass_witness:
  "''%x'' \<noteq> [] \<and> replace_all ''a%xb%x%'' ''%x'' ''%x%x'' = Some ''a%x%xb%x%x%''"
  using replace_all_single_pass [of "''%x''" "''a%xb%x%''" "''%x%x''"] by simp

text \<open>
  C10.  \<open>replace_all\<close> returns for every text, every token that is not empty and every
  replacement, and for the empty token it never returns: the token being non-empty is
  necessary for termination.
\<close>

theorem replace_all_terminates:
  "(search \<noteq> [] \<longrightarrow> (\<exists>result. replace_all data search replace = Some result))
   \<and> replace_all data [] replace = None"
  by (simp add: replace_all_total replace_all_empty_token)

theorem replace_all_terminates_witness:
  "''%x'' \<noteq> [] \<and> (\<exists>result. replace_all ''%x%x'' ''%x'' ''a%xb'' = Some result)
   \<and> replace_all ''%x%x'' [] ''a%xb'' = None"
  using replace_all_terminates [of "''%x''" "''%x%x''" "''a%xb''"] by simp

section \<open>The pointer chain\<close>

text \<open>
  Two runs of the loop from hop \<open>i\<close>: into a null pointer at hop \<open>k\<close>, and through all
  remaining hops.
\<close>

lemma obtain_loop_null:
  "i \<le> k \<Longrightarrow> k < N \<Longrightarrow> (\<forall>j. i \<le> j \<and> j < k \<longrightarrow> cursor mem base offs (Suc j) \<noteq> 0) \<Longrightarrow>
     cursor mem base offs (Suc k) = 0 \<Longrightarrow>
     obtain_loop mem offs N i (cursor mem base offs i) reads
       = (0, reads @ map (hop_address mem base offs) [i..<Suc k])"
proof (induction "k - i" arbitrary: i reads)
  case 0
  then have "i = k" by simp
  with 0 show ?case
    by (subst obtain_loop.simps) (simp add: hop_address_def)
next
  case (Suc n)
  then have lt: "i < k" and nz: "cursor mem base offs (Suc i) \<noteq> 0" by auto
  have step: "obtain_loop mem offs N i (cursor mem base offs i) reads
                = obtain_loop mem offs N (Suc i) (cursor mem base offs (Suc i))
                    (reads @ [hop_address mem base offs i])"
    using lt Suc.prems(2) nz by (subst obtain_loop.simps) (simp add: hop_address_def)
  have "obtain_loop mem offs N (Suc i) (cursor mem base offs (Suc i))
          (reads @ [hop_address mem base offs i])
        = (0, (reads @ [hop_address mem base offs i]) @ map (hop_address mem base offs) [Suc i..<Suc k])"
    using Suc.hyps(2) lt Suc.prems by (intro Suc.hyps(1)) auto
  with step lt show ?case by (simp add: upt_conv_Cons)
qed

lemma obtain_loop_leaf:
  "i \<le> N \<Longrightarrow> (\<forall>j. i \<le> j \<and> j < N \<longrightarrow> cursor mem base offs (Suc j) \<noteq> 0) \<Longrightarrow>
     obtain_loop mem offs N i (cursor mem base offs i) reads
       = (cursor mem base offs N + offs ! N, reads @ map (hop_address mem base offs) [i..<N])"
proof (induction "N - i" arbitrary: i reads)
  case 0
  then have "i = N" by simp
  then show ?case by (subst obtain_loop.simps) simp
next
  case (Suc n)
  then have lt: "i < N" and nz: "cursor mem base offs (Suc i) \<noteq> 0" by auto
  have step: "obtain_loop mem offs N i (cursor mem base offs i) reads
                = obtain_loop mem offs N (Suc i) (cursor mem base offs (Suc i))
                    (reads @ [hop_address mem base offs i])"
    using lt nz by (subst obtain_loop.simps) (simp add: hop_address_def)
  have "obtain_loop mem offs N (Suc i) (cursor mem base offs (Suc i))
          (reads @ [hop_address mem base offs i])
        = (cursor mem base offs N + offs ! N,
           (reads @ [hop_address mem base offs i]) @ map (hop_address mem base offs) [Suc i..<N])"
    using Suc.hyps(2) lt Suc.prems by (intro Suc.hyps(1)) auto
  with step lt show ?case by (simp add: upt_conv_Cons)
qed

text \<open>
  C1.  For a chain of \<open>N + 1\<close> offsets and every memory, \<open>obtain\<close> starts at the base
  address and at hop \<open>i\<close> reads the pointer at cursor plus \<open>offsets[i]\<close>.  If the first null
  pointer is read at hop \<open>k\<close>, the result is the null pointer and the reads are exactly
  those of hops \<open>0..k\<close>, none of a later hop.  If no hop reads null, the result is the
  cursor after \<open>N\<close> hops plus \<open>offsets[N]\<close>, after exactly \<open>N\<close> reads: the leaf is not
  dereferenced.
\<close>

theorem obtain_walks_chain:
  assumes "length offsets = Suc N"
  shows "(\<forall>k<N. (\<forall>j<k. cursor mem base offsets (Suc j) \<noteq> 0) \<and> cursor mem base offsets (Suc k) = 0 \<longrightarrow>
            relocation_obtain mem base N offsets = 0
            \<and> relocation_reads mem base N offsets = map (hop_address mem base offsets) [0..<Suc k])
       \<and> ((\<forall>j<N. cursor mem base offsets (Suc j) \<noteq> 0) \<longrightarrow>
            relocation_obtain mem base N offsets = cursor mem base offsets N + offsets ! N
            \<and> relocation_reads mem base N offsets = map (hop_address mem base offsets) [0..<N])"
proof (intro conjI allI impI)
  fix k assume k: "k < N"
    and h: "(\<forall>j<k. cursor mem base offsets (Suc j) \<noteq> 0) \<and> cursor mem base offsets (Suc k) = 0"
  from obtain_loop_null[of 0 k N mem base offsets "[]"] k h
  have "obtain_loop mem offsets N 0 base [] = (0, map (hop_address mem base offsets) [0..<Suc k])"
    by simp
  then show "relocation_obtain mem base N offsets = 0"
    and "relocation_reads mem base N offsets = map (hop_address mem base offsets) [0..<Suc k]"
    by (simp_all add: relocation_obtain_def relocation_reads_def)
next
  assume h: "\<forall>j<N. cursor mem base offsets (Suc j) \<noteq> 0"
  from obtain_loop_leaf[of 0 N mem base offsets "[]"] h
  have "obtain_loop mem offsets N 0 base []
          = (cursor mem base offsets N + offsets ! N, map (hop_address mem base offsets) [0..<N])"
    by simp
  then show "relocation_obtain mem base N offsets = cursor mem base offsets N + offsets ! N"
    and "relocation_reads mem base N offsets = map (hop_address mem base offsets) [0..<N]"
    by (simp_all add: relocation_obtain_def relocation_reads_def)
qed

theorem obtain_walks_chain_witness:
  "length [0x1ec3bc8, 0x34 :: addr] = Suc 1
   \<and> relocation_obtain (epoch_memory 0x3EE66666) 0x140000000 1 [0x1ec3bc8, 0x34] = 0x20000034
   \<and> relocation_reads (epoch_memory 0x3EE66666) 0x140000000 1 [0x1ec3bc8, 0x34] = [0x141ec3bc8]
   \<and> relocation_obtain (memory_of [] [] []) 0x140000000 1 [0x1ec3bc8, 0x34] = 0
   \<and> relocation_reads (memory_of [] [] []) 0x140000000 1 [0x1ec3bc8, 0x34] = [0x141ec3bc8]"
  using obtain_walks_chain [of "[0x1ec3bc8, 0x34]" 1 "epoch_memory 0x3EE66666" "0x140000000"]
    obtain_walks_chain [of "[0x1ec3bc8, 0x34]" 1 "memory_of [] [] []" "0x140000000"]
  by (simp add: hop_address_def epoch_memory_def memory_of_def cells_def)

text \<open>
  The first read of a chain with at least one hop is at base plus root offset, whatever
  the root offset is.
\<close>

lemma obtain_first_read:
  "0 < N \<Longrightarrow> relocation_reads mem base N offsets \<noteq> []
     \<and> hd (relocation_reads mem base N offsets) = base + offsets ! 0"
proof -
  assume N: "0 < N"
  have pre: "\<And>i that rs. rs \<noteq> [] \<Longrightarrow>
        snd (obtain_loop mem offsets N i that rs) \<noteq> [] \<and> hd (snd (obtain_loop mem offsets N i that rs)) = hd rs"
  proof -
    fix i that and rs :: "addr list"
    assume "rs \<noteq> []"
    then show "snd (obtain_loop mem offsets N i that rs) \<noteq> [] \<and> hd (snd (obtain_loop mem offsets N i that rs)) = hd rs"
    proof (induction mem offsets N i that rs rule: obtain_loop.induct)
      case (1 mem offsets N i that reads)
      then show ?case
        by (subst (1 2) obtain_loop.simps) auto
    qed
  qed
  show ?thesis
    unfolding relocation_reads_def
    using N pre[of "[base + offsets ! 0]" "Suc 0" "load_ptr mem (base + offsets ! 0)"]
    by (subst (1 2) obtain_loop.simps) auto
qed

lemma catalogue_roots:
  "v \<in> set (snd (make_variables ft)) \<Longrightarrow> c \<in> set (resolved_chains (applies v) (fst (make_variables ft)))
     \<Longrightarrow> c ! 0 \<noteq> 0"
  by (cases ft)
    (auto simp: make_variables_def wire_def Let_def initial_chains_def gtime_def ppos_def ltime_def
      split: if_splits)

text \<open>The result and the reads of a whole run, from the base address.\<close>

lemma obtain_from_base:
  "(\<forall>k<N. (\<forall>j<k. cursor mem base offsets (Suc j) \<noteq> 0) \<and> cursor mem base offsets (Suc k) = 0 \<longrightarrow>
      obtain_loop mem offsets N 0 base [] = (0, map (hop_address mem base offsets) [0..<Suc k]))
   \<and> ((\<forall>j<N. cursor mem base offsets (Suc j) \<noteq> 0) \<longrightarrow>
      obtain_loop mem offsets N 0 base []
        = (cursor mem base offsets N + offsets ! N, map (hop_address mem base offsets) [0..<N]))"
proof (intro conjI allI impI)
  fix k assume "k < N"
    and "(\<forall>j<k. cursor mem base offsets (Suc j) \<noteq> 0) \<and> cursor mem base offsets (Suc k) = 0"
  then show "obtain_loop mem offsets N 0 base [] = (0, map (hop_address mem base offsets) [0..<Suc k])"
    using obtain_loop_null[of 0 k N mem base offsets "[]"] by simp
next
  assume "\<forall>j<N. cursor mem base offsets (Suc j) \<noteq> 0"
  then show "obtain_loop mem offsets N 0 base []
        = (cursor mem base offsets N + offsets ! N, map (hop_address mem base offsets) [0..<N])"
    using obtain_loop_leaf[of 0 N mem base offsets "[]"] by simp
qed

text \<open>
  C7, as the code has it.  \<open>obtain\<close> does not look at the root offset.  With root offset 0
  and at least one hop it reads at the base address itself and goes on as for any other
  chain: when the first null pointer is read at hop \<open>k\<close> the result is the null pointer
  after the reads of hops \<open>0..k\<close>; when no hop reads null the result is the cursor after
  \<open>N\<close> hops plus \<open>offsets[N]\<close> (a 64-bit sum, whatever its value) after \<open>N\<close> reads.  The
  guard is in \<open>make_variables\<close>: every chain that a catalogued variable resolves has a
  root offset other than 0, the game time and the player position being left out of the
  catalogue otherwise.
\<close>

theorem root_offset_gate:
  "(0 < N \<and> length offsets = Suc N \<and> offsets ! 0 = 0 \<longrightarrow>
      relocation_reads mem base N offsets \<noteq> []
      \<and> hd (relocation_reads mem base N offsets) = base
      \<and> cursor mem base offsets (Suc 0) = load_ptr mem base
      \<and> (\<forall>k<N. (\<forall>j<k. cursor mem base offsets (Suc j) \<noteq> 0) \<and> cursor mem base offsets (Suc k) = 0 \<longrightarrow>
            relocation_obtain mem base N offsets = 0
            \<and> relocation_reads mem base N offsets = map (hop_address mem base offsets) [0..<Suc k])
      \<and> ((\<forall>j<N. cursor mem base offsets (Suc j) \<noteq> 0) \<longrightarrow>
            relocation_obtain mem base N offsets = cursor mem base offsets N + offsets ! N
            \<and> relocation_reads mem base N offsets = map (hop_address mem base offsets) [0..<N]))
   \<and> (\<forall>v \<in> set (snd (make_variables find_target)).
        \<forall>c \<in> set (resolved_chains (applies v) (fst (make_variables find_target))). c ! 0 \<noteq> 0)"
proof (intro conjI impI ballI allI)
  assume a: "0 < N \<and> length offsets = Suc N \<and> offsets ! 0 = 0"
  then show "relocation_reads mem base N offsets \<noteq> []"
    and "hd (relocation_reads mem base N offsets) = base"
    using obtain_first_read[of N mem base offsets] by simp_all
  from a show "cursor mem base offsets (Suc 0) = load_ptr mem base" by simp
next
  fix k
  assume "k < N"
    and "(\<forall>j<k. cursor mem base offsets (Suc j) \<noteq> 0) \<and> cursor mem base offsets (Suc k) = 0"
  then have "obtain_loop mem offsets N 0 base [] = (0, map (hop_address mem base offsets) [0..<Suc k])"
    using obtain_from_base[of N mem base offsets] by blast
  then show "relocation_obtain mem base N offsets = 0"
    and "relocation_reads mem base N offsets = map (hop_address mem base offsets) [0..<Suc k]"
    by (simp_all add: relocation_obtain_def relocation_reads_def)
next
  assume "\<forall>j<N. cursor mem base offsets (Suc j) \<noteq> 0"
  then have "obtain_loop mem offsets N 0 base []
      = (cursor mem base offsets N + offsets ! N, map (hop_address mem base offsets) [0..<N])"
    using obtain_from_base[of N mem base offsets] by blast
  then show "relocation_obtain mem base N offsets = cursor mem base offsets N + offsets ! N"
    and "relocation_reads mem base N offsets = map (hop_address mem base offsets) [0..<N]"
    by (simp_all add: relocation_obtain_def relocation_reads_def)
next
  fix v c
  assume "v \<in> set (snd (make_variables find_target))"
    and "c \<in> set (resolved_chains (applies v) (fst (make_variables find_target)))"
  then show "c ! 0 \<noteq> 0" by (rule catalogue_roots)
qed


theorem root_offset_gate_witness:
  "0 < (1::nat) \<and> length [0, 0x34 :: addr] = Suc 1 \<and> [0, 0x34] ! 0 = (0 :: addr)
   \<and> relocation_obtain (memory_of [] [] []) 0x140000000 1 [0, 0x34] = 0
   \<and> relocation_reads (memory_of [] [] []) 0x140000000 1 [0, 0x34] = [0x140000000]
   \<and> relocation_obtain (memory_of [(0x140000000, 0x20000000)] [] []) 0x140000000 1 [0, 0x34] = 0x20000034
   \<and> relocation_reads (memory_of [(0x140000000, 0x20000000)] [] []) 0x140000000 1 [0, 0x34] = [0x140000000]
   \<and> snd (make_variables (Some no_targets)) = [ltime]
   \<and> snd (make_variables None) = [gtime, ppos, ltime]
   \<and> game_epoch (fst (make_variables None)) ! 0 \<noteq> 0"
proof -
  let ?m0 = "memory_of [] [] []"
  let ?m1 = "memory_of [(0x140000000, 0x20000000)] [] []"
  let ?b = "0x140000000 :: addr"
  let ?os = "[0, 0x34] :: addr list"
  have g: "0 < (1::nat) \<and> length ?os = Suc 1 \<and> ?os ! 0 = (0 :: addr)" by simp
  have c0: "cursor ?m0 ?b ?os (Suc 0) = 0" "hop_address ?m0 ?b ?os 0 = ?b"
    by (simp_all add: hop_address_def memory_of_def cells_def)
  have c1: "cursor ?m1 ?b ?os (Suc 0) = 0x20000000" "hop_address ?m1 ?b ?os 0 = ?b"
    by (simp_all add: hop_address_def memory_of_def cells_def)
  from root_offset_gate [of 1 ?os ?m0 ?b None] g
  have "\<forall>k<1. (\<forall>j<k. cursor ?m0 ?b ?os (Suc j) \<noteq> 0) \<and> cursor ?m0 ?b ?os (Suc k) = 0 \<longrightarrow>
          relocation_obtain ?m0 ?b 1 ?os = 0
          \<and> relocation_reads ?m0 ?b 1 ?os = map (hop_address ?m0 ?b ?os) [0..<Suc k]"
    by blast
  then have "(\<forall>j<(0::nat). cursor ?m0 ?b ?os (Suc j) \<noteq> 0) \<and> cursor ?m0 ?b ?os (Suc 0) = 0 \<longrightarrow>
          relocation_obtain ?m0 ?b 1 ?os = 0
          \<and> relocation_reads ?m0 ?b 1 ?os = map (hop_address ?m0 ?b ?os) [0..<Suc 0]"
    by blast
  with c0 have r0: "relocation_obtain ?m0 ?b 1 ?os = 0" "relocation_reads ?m0 ?b 1 ?os = [?b]"
    by simp_all
  from root_offset_gate [of 1 ?os ?m1 ?b None] g
  have "(\<forall>j<1. cursor ?m1 ?b ?os (Suc j) \<noteq> 0) \<longrightarrow>
          relocation_obtain ?m1 ?b 1 ?os = cursor ?m1 ?b ?os 1 + ?os ! 1
          \<and> relocation_reads ?m1 ?b 1 ?os = map (hop_address ?m1 ?b ?os) [0..<1]"
    by blast
  with c1 have r1: "relocation_obtain ?m1 ?b 1 ?os = 0x20000034" "relocation_reads ?m1 ?b 1 ?os = [?b]"
    by simp_all
  have m: "snd (make_variables (Some no_targets)) = [ltime]"
    "snd (make_variables None) = [gtime, ppos, ltime]"
    "game_epoch (fst (make_variables None)) ! 0 \<noteq> 0"
    by (simp_all add: make_variables_def wire_def no_targets_def initial_chains_def Let_def)
  from g r0 r1 m show ?thesis by blast
qed

text \<open>
  The claim as stated fails: with root offset 0 and a pointer stored at the base address,
  \<open>obtain\<close> reads that pointer and returns a leaf address.
\<close>

theorem root_offset_zero_counterexample:
  "[0, 0x34] ! 0 = (0 :: addr)
   \<and> relocation_obtain (memory_of [(0x140000000, 0x20000000)] [] []) 0x140000000 1 [0, 0x34] = 0x20000034
   \<and> relocation_obtain (memory_of [(0x140000000, 0x20000000)] [] []) 0x140000000 1 [0, 0x34] \<noteq> 0
   \<and> relocation_reads (memory_of [(0x140000000, 0x20000000)] [] []) 0x140000000 1 [0, 0x34] = [0x140000000]"
  by (simp add: relocation_obtain_def relocation_reads_def obtain_loop.simps memory_of_def cells_def)

section \<open>Calendar arithmetic within the range of \<open>int\<close>\<close>

lemma add32_id: "- 2147483648 \<le> a + b \<Longrightarrow> a + b < 2147483648 \<Longrightarrow> add32 a b = a + b"
  by (simp add: add32_def signed_take_bit_int_eq_self)

lemma sub32_id: "- 2147483648 \<le> a - b \<Longrightarrow> a - b < 2147483648 \<Longrightarrow> sub32 a b = a - b"
  by (simp add: sub32_def signed_take_bit_int_eq_self)

lemma c_mod_nonneg: "0 \<le> a \<Longrightarrow> 0 < b \<Longrightarrow> c_mod a b = a mod b"
  by (cases "a = 0") (simp_all add: c_mod_def)

lemma c_div_nonneg: "0 \<le> a \<Longrightarrow> 0 < b \<Longrightarrow> c_div a b = a div b"
  by (cases "a = 0") (simp_all add: c_div_def)

lemma month_index_bound: "yd \<le> 365 \<Longrightarrow> month_index yd < 12"
  by (simp add: month_index_def lower_bound_def months_def)

lemma table_lengths:
  "length longmon = 12" "length birtmon = 12" "length argomon = 12"
  "length longwday = 7" "length shrtwday = 7" "length months = 12"
  by (simp_all add: longmon_def birtmon_def argomon_def longwday_def shrtwday_def months_def)

lemma subscript_in_range:
  "0 \<le> i \<Longrightarrow> i < int (length xs) \<Longrightarrow> subscript xs i = Some (xs ! nat i)"
  by (simp add: subscript_def)

lemma guard_passed:
  assumes "isnormal x" "\<not> float_less_zero x"
  shows "\<not> float_sign x" "isfinite x" "0 \<le> float_trunc x"
proof -
  from assms show s: "\<not> float_sign x"
    by (auto simp: isnormal_def float_less_zero_def isnan_def is_zero_def)
  from assms show "isfinite x" by (simp add: isnormal_def isfinite_def)
  from s show "0 \<le> float_trunc x" by (simp add: float_trunc_def Let_def)
qed

lemma calendar_in_range:
  assumes "isnormal x" "\<not> float_less_zero x" "float_trunc x \<le> 2147483392"
  shows "cal_d (game_calendar x) = float_trunc x + 228"
    and "1 \<le> cal_yd (game_calendar x)" "cal_yd (game_calendar x) \<le> 365"
    and "cal_mo (game_calendar x) < 12"
    and "0 \<le> cal_wd (game_calendar x)" "cal_wd (game_calendar x) < 7"
proof -
  have t: "float_to_int x = float_trunc x" and t0: "0 \<le> float_trunc x"
    using guard_passed[OF assms(1,2)] assms(3) by (simp_all add: float_to_int_def)
  have d: "add32 (float_to_int x) 228 = float_trunc x + 228"
    using t t0 assms(3) by (simp add: add32_id)
  show "cal_d (game_calendar x) = float_trunc x + 228"
    by (simp add: game_calendar_def d)
  have yd: "add32 (c_mod (float_trunc x + 228) 365) 1 = (float_trunc x + 228) mod 365 + 1"
    using t0 by (simp add: c_mod_nonneg add32_id)
  have "0 \<le> (float_trunc x + 228) mod 365" "(float_trunc x + 228) mod 365 < 365"
    by simp_all
  then show yd1: "1 \<le> cal_yd (game_calendar x)" and yd2: "cal_yd (game_calendar x) \<le> 365"
    by (simp_all add: game_calendar_def d yd)
  from yd2 show "cal_mo (game_calendar x) < 12"
    by (simp add: game_calendar_def month_index_bound)
  have wd: "add32 (float_trunc x + 228) 3 = float_trunc x + 231"
    using t0 assms(3) by (simp add: add32_id)
  show "0 \<le> cal_wd (game_calendar x)" "cal_wd (game_calendar x) < 7"
    using t0 by (simp_all add: game_calendar_def d wd c_mod_nonneg)
qed

lemma game_time_format_in_range:
  assumes "cal_mo c < 12" "0 \<le> cal_wd c" "cal_wd c < 7"
  shows "game_time_format lc src c fmt = Some (substitute_all (calendar_escapes lc src c) fmt)"
proof -
  have mo: "subscript longmon (int (cal_mo c)) = Some (longmon ! cal_mo c)"
    "subscript birtmon (int (cal_mo c)) = Some (birtmon ! cal_mo c)"
    "subscript argomon (int (cal_mo c)) = Some (argomon ! cal_mo c)"
    using assms(1) by (simp_all add: subscript_in_range table_lengths)
  have wd: "subscript shrtwday (cal_wd c) = Some (shrtwday ! nat (cal_wd c))"
    "subscript longwday (cal_wd c) = Some (longwday ! nat (cal_wd c))"
    using assms(2,3) by (simp_all add: subscript_in_range table_lengths)
  have a: "add32 (int (cal_mo c)) 1 = int (cal_mo c) + 1" "add32 (cal_wd c) 1 = cal_wd c + 1"
    using assms by (simp_all add: add32_id)
  show ?thesis
    by (simp add: game_time_format_def replace_all_total mo wd a substitute_all_def calendar_escapes_def)
qed

section \<open>The location formatter\<close>

lemma player_location_available:
  assumes "relocation_obtain mem base 1 (player_pos ch) \<noteq> 0"
    and "isfinite (pos_at mem (relocation_obtain mem base 1 (player_pos ch)) 0)"
    and "isfinite (pos_at mem (relocation_obtain mem base 1 (player_pos ch)) 1)"
    and "isfinite (pos_at mem (relocation_obtain mem base 1 (player_pos ch)) 2)"
  shows "player_location lc mem base ch format
           = Some (names_substituted
                     (name_text mem (relocation_obtain mem base 3 (worldspace_name ch)))
                     (name_text mem (relocation_obtain mem base 3 (player_cell ch)))
                     (coordinates_substituted lc
                        (pos_at mem (relocation_obtain mem base 1 (player_pos ch)) 0)
                        (pos_at mem (relocation_obtain mem base 1 (player_pos ch)) 1)
                        (pos_at mem (relocation_obtain mem base 1 (player_pos ch)) 2) format))"
  using assms
  by (simp add: player_location_def replace_all_total names_substituted_def
      coordinates_substituted_def Let_def)

lemma player_location_unavailable:
  assumes "relocation_obtain mem base 1 (player_pos ch) = 0
     \<or> \<not> isfinite (pos_at mem (relocation_obtain mem base 1 (player_pos ch)) 0)
     \<or> \<not> isfinite (pos_at mem (relocation_obtain mem base 1 (player_pos ch)) 1)
     \<or> \<not> isfinite (pos_at mem (relocation_obtain mem base 1 (player_pos ch)) 2)"
  shows "player_location lc mem base ch format = Some ''(n/a)''"
  using assms by (auto simp: player_location_def)

text \<open>
  C4.  When the position chain does not resolve or one of the three coordinates is not
  finite, \<open>player_location\<close> returns \<open>(n/a)\<close> whatever the format.  Otherwise the
  coordinate escapes are substituted from the position alone, and a world or cell name
  whose chain does not resolve only turns its own escape (\<open>%wn\<close>, \<open>%cn\<close>) into the empty
  text.
\<close>

theorem player_location_absence:
  "(relocation_obtain mem base 1 (player_pos ch) = 0
      \<or> \<not> isfinite (pos_at mem (relocation_obtain mem base 1 (player_pos ch)) 0)
      \<or> \<not> isfinite (pos_at mem (relocation_obtain mem base 1 (player_pos ch)) 1)
      \<or> \<not> isfinite (pos_at mem (relocation_obtain mem base 1 (player_pos ch)) 2)
    \<longrightarrow> player_location lc mem base ch format = Some ''(n/a)'')
   \<and> (relocation_obtain mem base 1 (player_pos ch) \<noteq> 0
      \<and> isfinite (pos_at mem (relocation_obtain mem base 1 (player_pos ch)) 0)
      \<and> isfinite (pos_at mem (relocation_obtain mem base 1 (player_pos ch)) 1)
      \<and> isfinite (pos_at mem (relocation_obtain mem base 1 (player_pos ch)) 2)
    \<longrightarrow> player_location lc mem base ch format
          = Some (names_substituted
                    (if relocation_obtain mem base 3 (worldspace_name ch) = 0 then []
                     else load_cstr mem (relocation_obtain mem base 3 (worldspace_name ch)))
                    (if relocation_obtain mem base 3 (player_cell ch) = 0 then []
                     else load_cstr mem (relocation_obtain mem base 3 (player_cell ch)))
                    (coordinates_substituted lc
                       (pos_at mem (relocation_obtain mem base 1 (player_pos ch)) 0)
                       (pos_at mem (relocation_obtain mem base 1 (player_pos ch)) 1)
                       (pos_at mem (relocation_obtain mem base 1 (player_pos ch)) 2) format)))"
  using player_location_unavailable[of mem base ch lc format]
    player_location_available[of mem base ch lc format]
  by (auto simp: name_text_def)

lemma location_leaf:
  "relocation_obtain location_memory 0x140000000 1 (player_pos initial_chains) = 0x30000054"
  "relocation_obtain location_memory 0x140000000 3 (worldspace_name initial_chains) = 0"
  "relocation_obtain location_memory 0x140000000 3 (player_cell initial_chains) = 0"
  by (simp_all add: relocation_obtain_def obtain_loop.simps location_memory_def memory_of_def
      cells_def initial_chains_def)

lemma location_floats:
  "pos_at location_memory 0x30000054 0 = 0x3F800000"
  "pos_at location_memory 0x30000054 1 = 0x40000000"
  "pos_at location_memory 0x30000054 2 = 0x40400000"
  by (simp_all add: pos_at_def location_memory_def memory_of_def cells_def)

lemma location_finite: "isfinite 0x3F800000" "isfinite 0x40000000" "isfinite 0x40400000"
  by (simp_all add: isfinite_def float_exponent_def)

theorem player_location_absence_witness:
  "relocation_obtain location_memory 0x140000000 1 (player_pos initial_chains) \<noteq> 0
   \<and> relocation_obtain location_memory 0x140000000 3 (worldspace_name initial_chains) = 0
   \<and> player_location blank_libc location_memory 0x140000000 initial_chains ''%wn, %cn: %x %y %z''
       = Some '', : 0 0 0''"
proof -
  have "player_location blank_libc location_memory 0x140000000 initial_chains ''%wn, %cn: %x %y %z''
      = Some (names_substituted [] []
          (coordinates_substituted blank_libc 0x3F800000 0x40000000 0x40400000 ''%wn, %cn: %x %y %z''))"
    using player_location_absence [of location_memory "0x140000000" initial_chains blank_libc
      "''%wn, %cn: %x %y %z''"]
    by (simp add: location_leaf location_floats location_finite del: One_nat_def)
  then show ?thesis
    by (simp add: location_leaf names_substituted_def coordinates_substituted_def
        coordinate_text_def blank_libc_def del: One_nat_def)
qed

section \<open>The calendar formatter\<close>

subsection \<open>The guard\<close>

lemma game_time_unavailable:
  assumes "relocation_obtain mem base 1 (game_epoch ch) = 0
     \<or> \<not> isnormal (load_float mem (relocation_obtain mem base 1 (game_epoch ch)))
     \<or> float_less_zero (load_float mem (relocation_obtain mem base 1 (game_epoch ch)))"
  shows "game_time lc mem base ch format = Some ''(n/a)''"
  using assms by (auto simp: game_time_def)

lemma game_time_available:
  assumes "relocation_obtain mem base 1 (game_epoch ch) \<noteq> 0"
    and "isnormal (load_float mem (relocation_obtain mem base 1 (game_epoch ch)))"
    and "\<not> float_less_zero (load_float mem (relocation_obtain mem base 1 (game_epoch ch)))"
    and "float_trunc (load_float mem (relocation_obtain mem base 1 (game_epoch ch))) \<le> 2147483392"
  shows "game_time lc mem base ch format
           = Some (substitute_all
                (calendar_escapes lc (load_float mem (relocation_obtain mem base 1 (game_epoch ch)))
                   (game_calendar (load_float mem (relocation_obtain mem base 1 (game_epoch ch)))))
                format)"
  using assms calendar_in_range[OF assms(2,3,4)]
  by (simp add: game_time_def game_time_format_in_range)

subsection \<open>Concrete runs\<close>

text \<open>
  Evaluation in stages: the fields of a float, then the exact result of an operation, then
  its rounding.  The floats are \<open>0x3EE66666\<close> (0.45), \<open>0x00800000\<close> (the smallest
  normal float, \<open>2 ^ -126\<close>), \<open>0x43080000\<close> (136), \<open>0x4EFFFFFF\<close> (\<open>2 ^ 31 - 128\<close>) and
  \<open>0x4F32D05E\<close> (3000000000).
\<close>

lemmas decode = float_sign_def float_exponent_def float_fraction_def isnan_def isfinite_def
  isnormal_def is_zero_def significand_def scale_def float_less_zero_def

lemmas rounding = round_to_float_def Let_def bit_length.simps round_half_even_def pack_float_def

lemmas int32 = add32_def sub32_def c_div_def c_mod_def month_index_def month_day_def
  lower_bound_def months_def

lemma epoch_leaf:
  "relocation_obtain (epoch_memory x) 0x140000000 1 (game_epoch initial_chains) = 0x20000034"
  "load_float (epoch_memory x) 0x20000034 = x"
  "relocation_obtain (memory_of [] [] []) 0x140000000 1 (game_epoch initial_chains) = 0"
  by (simp_all add: relocation_obtain_def obtain_loop.simps epoch_memory_def memory_of_def
      cells_def initial_chains_def)

lemma epoch_memory_reads: "epoch_reads (epoch_memory x) 0x140000000 initial_chains x"
  by (simp add: epoch_reads_def epoch_leaf del: One_nat_def)

lemma game_time_epoch:
  "epoch_reads mem base ch x \<Longrightarrow>
     game_time lc mem base ch format =
       (if \<not> isnormal x \<or> float_less_zero x then Some ''(n/a)''
        else game_time_format lc x (game_calendar x) format)"
  by (auto simp: epoch_reads_def game_time_def)

lemma conversions:
  "int_to_float 0 = 0" "int_to_float 24 = 0x41C00000" "int_to_float 60 = 0x42700000"
  by (simp_all add: int_to_float_def rounding)

lemma classes:
  "isnormal 0x3EE66666" "\<not> float_less_zero 0x3EE66666"
  "isnormal 0x00800000" "\<not> float_less_zero 0x00800000"
  "isnormal 0x4F32D05E" "\<not> float_less_zero 0x4F32D05E"
  "isnormal 0x43080000" "\<not> float_less_zero 0x43080000"
  "\<not> isnormal 0"
  by (simp_all add: decode)

lemma truncations:
  "float_to_int 0 = 0"
  "float_to_int 0x3EE66666 = 0"
  "float_to_int 0x00800000 = 0"
  "float_to_int 0x43080000 = 136"
  "float_to_int 0x4F32D05E = - 2147483648"
  by (simp_all add: float_to_int_def float_trunc_def decode)

lemma hours_045: "hms_hours 0x3EE66666 = 0x412CCCCC"
  unfolding hms_hours_def truncations conversions
  apply (simp add: fsub_def aligned_def decode)
  apply (simp add: rounding)
  apply (simp add: fmul_def decode)
  apply (simp add: rounding)
  done

lemma hms_zero: "hms_hours 0 = 0" "hms_minutes 0 = 0" "hms_seconds 0 = 0"
proof -
  have sub: "fsub 0 0 = 0"
    by (simp add: fsub_def aligned_def decode pack_float_def)
  have mul: "fmul 0 0x41C00000 = 0" "fmul 0 0x42700000 = 0"
    by (simp_all add: fmul_def decode round_to_float_def pack_float_def)
  show h: "hms_hours 0 = 0"
    by (simp add: hms_hours_def truncations conversions sub mul)
  show m: "hms_minutes 0 = 0"
    by (simp add: hms_minutes_def h truncations conversions sub mul)
  show "hms_seconds 0 = 0"
    by (simp add: hms_seconds_def m truncations conversions sub mul)
qed

lemma hms_min_normal:
  "float_to_int (hms_hours 0x00800000) = 0"
  "float_to_int (hms_minutes 0x00800000) = 0"
  "float_to_int (hms_seconds 0x00800000) = 0"
proof -
  have h: "hms_hours 0x00800000 = 0x02C00000"
    unfolding hms_hours_def truncations conversions
    apply (simp add: fsub_def aligned_def decode)
    apply (simp add: rounding)
    apply (simp add: fmul_def decode)
    apply (simp add: rounding)
    done
  have th: "float_to_int 0x02C00000 = 0"
    by (simp add: float_to_int_def float_trunc_def decode)
  have m: "hms_minutes 0x00800000 = 0x05B40000"
    unfolding hms_minutes_def h th conversions
    apply (simp add: fsub_def aligned_def decode)
    apply (simp add: rounding)
    apply (simp add: fmul_def decode)
    apply (simp add: rounding)
    done
  have tm: "float_to_int 0x05B40000 = 0"
    by (simp add: float_to_int_def float_trunc_def decode)
  have s: "hms_seconds 0x00800000 = 0x08A8C000"
    unfolding hms_seconds_def m tm conversions
    apply (simp add: fsub_def aligned_def decode)
    apply (simp add: rounding)
    apply (simp add: fmul_def decode)
    apply (simp add: rounding)
    done
  show "float_to_int (hms_hours 0x00800000) = 0" by (simp add: h th)
  show "float_to_int (hms_minutes 0x00800000) = 0" by (simp add: m tm)
  show "float_to_int (hms_seconds 0x00800000) = 0"
    by (simp add: s float_to_int_def float_trunc_def decode)
qed

lemma calendar_day_zero:
  assumes "float_to_int x = 0"
  shows "cal_d (game_calendar x) = 228" "cal_y (game_calendar x) = 201"
    "cal_yd (game_calendar x) = 229" "cal_wd (game_calendar x) = 0"
    "cal_mo (game_calendar x) = 7" "cal_md (game_calendar x) = 17"
  by (simp_all add: game_calendar_def assms int32)

lemma calendar_045: "cal_h (game_calendar 0x3EE66666) = 10"
  by (simp add: game_calendar_def hours_045 float_to_int_def float_trunc_def decode)

lemma calendar_min_normal:
  "cal_h (game_calendar 0x00800000) = 0" "cal_m (game_calendar 0x00800000) = 0"
  "cal_s (game_calendar 0x00800000) = 0"
  by (simp_all add: game_calendar_def hms_min_normal)

lemma calendar_zero:
  "game_calendar 0 = \<lparr>cal_h = 0, cal_m = 0, cal_s = 0, cal_d = 228, cal_y = 201, cal_yd = 229,
     cal_wd = 0, cal_mo = 7, cal_md = 17\<rparr>"
  by (simp add: game_calendar_def hms_zero truncations int32)

lemma calendar_3e9:
  "cal_d (game_calendar 0x4F32D05E) = - 2147483420"
  "cal_yd (game_calendar 0x4F32D05E) = - 79"
  "cal_wd (game_calendar 0x4F32D05E) = - 2"
  "cal_mo (game_calendar 0x4F32D05E) = 0"
  by (simp_all add: game_calendar_def truncations int32)

lemma calendar_136:
  "cal_d (game_calendar 0x43080000) = 364"
  "cal_yd (game_calendar 0x43080000) = 365"
  "cal_mo (game_calendar 0x43080000) = 11"
  "cal_md (game_calendar 0x43080000) = 31"
  by (simp_all add: game_calendar_def truncations int32)

lemma names:
  "longwday ! 0 = ''Sundas''" "shrtwday ! 0 = ''Sun''" "longmon ! 7 = ''Last Seed''"
  "birtmon ! 7 = ''The Warrior''" "argomon ! 7 = ''Thtithil (Egg)''"
  "longmon ! 11 = ''Evening Star''"
  by (simp_all add: longwday_def shrtwday_def longmon_def birtmon_def argomon_def)

lemma to_string_small:
  "to_string 0 = ''0''" "to_string 1 = ''1''" "to_string 8 = ''8''" "to_string 10 = ''10''"
  "to_string 17 = ''17''" "to_string 201 = ''201''" "to_string 228 = ''228''"
  by (simp_all add: to_string_def digits.simps)

lemma game_time_day_zero:
  assumes "epoch_reads mem base ch x" "isnormal x" "\<not> float_less_zero x" "float_to_int x = 0"
  shows "game_time lc mem base ch format
    = Some (substitute_all
        [(''%y'', ''201''), (''%Y'', ''4E201''), (''%lm'', ''Last Seed''), (''%bm'', ''The Warrior''),
         (''%am'', ''Thtithil (Egg)''), (''%mo'', ''8''), (''%md'', ''17''), (''%sd'', ''Sun''),
         (''%ld'', ''Sundas''), (''%wd'', ''1''),
         (''%h'', to_string (cal_h (game_calendar x))), (''%m'', to_string (cal_m (game_calendar x))),
         (''%s'', to_string (cal_s (game_calendar x))), (''%ri'', ''228''),
         (''%r'', to_string_float lc x)] format)"
proof -
  note c = calendar_day_zero[OF assms(4)]
  have "game_time_format lc x (game_calendar x) format
          = Some (substitute_all (calendar_escapes lc x (game_calendar x)) format)"
    by (rule game_time_format_in_range) (simp_all add: c)
  then show ?thesis
    using assms(2,3)
    by (simp add: game_time_epoch[OF assms(1)] calendar_escapes_def c names to_string_small)
qed

lemma game_time_format_weekday_outside:
  "cal_mo c = 0 \<Longrightarrow> cal_wd c < 0 \<Longrightarrow> game_time_format lc x c format = None"
  by (simp add: game_time_format_def replace_all_total subscript_def table_lengths)

lemma calendar_below_2_31:
  "float_to_int 0x4EFFFFFF = 2147483520"
  "cal_d (game_calendar 0x4EFFFFFF) = - 2147483548"
  "cal_wd (game_calendar 0x4EFFFFFF) = - 4"
proof -
  show t: "float_to_int 0x4EFFFFFF = 2147483520"
    by (simp add: float_to_int_def float_trunc_def decode)
  show "cal_d (game_calendar 0x4EFFFFFF) = - 2147483548"
    "cal_wd (game_calendar 0x4EFFFFFF) = - 4"
    by (simp_all add: game_calendar_def t int32)
qed

subsection \<open>The claims on the calendar\<close>

text \<open>
  C2, as the code has it.  The raw input 0.45 renders \<open>%ld\<close> as Sundas and \<open>%h\<close> as 10.
  The raw input 0.0 is not a normal float: \<open>game_time\<close> returns \<open>(n/a)\<close> for every
  format.  The calendar arithmetic on 0.0 gives hour, minute and second 0, year 201,
  weekday 0 (Sundas), month index 7 (Last Seed, \<open>%mo\<close> 8) and day 17, and that is what
  \<open>game_time\<close> renders for the smallest normal input.
\<close>

theorem calendar_examples:
  "(epoch_reads mem base ch 0x3EE66666 \<longrightarrow>
      game_time lc mem base ch ''%ld'' = Some ''Sundas''
      \<and> game_time lc mem base ch ''%h'' = Some ''10'')
   \<and> (epoch_reads mem base ch 0 \<longrightarrow> game_time lc mem base ch format = Some ''(n/a)'')
   \<and> game_calendar 0 = \<lparr>cal_h = 0, cal_m = 0, cal_s = 0, cal_d = 228, cal_y = 201, cal_yd = 229,
        cal_wd = 0, cal_mo = 7, cal_md = 17\<rparr>
   \<and> longwday ! 0 = ''Sundas'' \<and> longmon ! 7 = ''Last Seed''
   \<and> (epoch_reads mem base ch 0x00800000 \<longrightarrow>
      game_time lc mem base ch ''%ld'' = Some ''Sundas''
      \<and> game_time lc mem base ch ''%h'' = Some ''0''
      \<and> game_time lc mem base ch ''%m'' = Some ''0''
      \<and> game_time lc mem base ch ''%s'' = Some ''0''
      \<and> game_time lc mem base ch ''%y'' = Some ''201''
      \<and> game_time lc mem base ch ''%mo'' = Some ''8''
      \<and> game_time lc mem base ch ''%lm'' = Some ''Last Seed''
      \<and> game_time lc mem base ch ''%md'' = Some ''17'')"
proof (intro conjI impI)
  assume r: "epoch_reads mem base ch 0x3EE66666"
  note a = game_time_day_zero[OF r classes(1,2) truncations(2)]
  show "game_time lc mem base ch ''%ld'' = Some ''Sundas''"
    by (simp add: a substitute_all_def)
  show "game_time lc mem base ch ''%h'' = Some ''10''"
    by (simp add: a substitute_all_def calendar_045 to_string_small)
next
  assume r: "epoch_reads mem base ch 0"
  show "game_time lc mem base ch format = Some ''(n/a)''"
    by (simp add: game_time_epoch[OF r] classes)
next
  assume r: "epoch_reads mem base ch 0x00800000"
  note b = game_time_day_zero[OF r classes(3,4) truncations(3)]
  show "game_time lc mem base ch ''%ld'' = Some ''Sundas''"
    "game_time lc mem base ch ''%h'' = Some ''0''"
    "game_time lc mem base ch ''%m'' = Some ''0''"
    "game_time lc mem base ch ''%s'' = Some ''0''"
    "game_time lc mem base ch ''%y'' = Some ''201''"
    "game_time lc mem base ch ''%mo'' = Some ''8''"
    "game_time lc mem base ch ''%lm'' = Some ''Last Seed''"
    "game_time lc mem base ch ''%md'' = Some ''17''"
    by (simp_all add: b substitute_all_def calendar_min_normal to_string_small)
qed (simp_all add: calendar_zero names)

theorem calendar_examples_witness:
  "epoch_reads (epoch_memory 0x3EE66666) 0x140000000 initial_chains 0x3EE66666
   \<and> game_time blank_libc (epoch_memory 0x3EE66666) 0x140000000 initial_chains ''%ld'' = Some ''Sundas''
   \<and> game_time blank_libc (epoch_memory 0x3EE66666) 0x140000000 initial_chains ''%h'' = Some ''10''
   \<and> epoch_reads (epoch_memory 0) 0x140000000 initial_chains 0
   \<and> game_time blank_libc (epoch_memory 0) 0x140000000 initial_chains ''%ld'' = Some ''(n/a)''
   \<and> epoch_reads (epoch_memory 0x00800000) 0x140000000 initial_chains 0x00800000
   \<and> game_time blank_libc (epoch_memory 0x00800000) 0x140000000 initial_chains ''%md'' = Some ''17''"
  using calendar_examples [of "epoch_memory 0x3EE66666" "0x140000000" initial_chains blank_libc "''%ld''"]
    calendar_examples [of "epoch_memory 0" "0x140000000" initial_chains blank_libc "''%ld''"]
    calendar_examples [of "epoch_memory 0x00800000" "0x140000000" initial_chains blank_libc "''%ld''"]
  by (simp add: epoch_memory_reads)

text \<open>The claim as stated fails at 0.0: no escape is substituted there.\<close>

theorem epoch_zero_counterexample:
  "load_float (epoch_memory 0) (relocation_obtain (epoch_memory 0) 0x140000000 1 (game_epoch initial_chains)) = 0
   \<and> game_time blank_libc (epoch_memory 0) 0x140000000 initial_chains ''%ld'' = Some ''(n/a)''
   \<and> game_time blank_libc (epoch_memory 0) 0x140000000 initial_chains ''%ld'' \<noteq> Some ''Sundas''
   \<and> game_time blank_libc (epoch_memory 0) 0x140000000 initial_chains ''%md'' \<noteq> Some ''17''"
  by (simp add: game_time_epoch[OF epoch_memory_reads] classes epoch_leaf del: One_nat_def)

text \<open>
  C3 at an input the guard lets through.  3000000000 is a normal float that is not
  negative.  When the chain resolves to it, \<open>int (*source)\<close> is not an \<open>int\<close>, the
  weekday comes out as -2 and the subscript of the weekday names lies outside the array:
  \<open>game_time\<close> returns no string, for any format.
\<close>

theorem game_time_huge_epoch:
  "isnormal 0x4F32D05E \<and> \<not> float_less_zero 0x4F32D05E
   \<and> (epoch_reads mem base ch 0x4F32D05E \<longrightarrow> game_time lc mem base ch format = None)"
  by (simp add: game_time_epoch classes game_time_format_weekday_outside calendar_3e9)

theorem game_time_huge_epoch_witness:
  "epoch_reads (epoch_memory 0x4F32D05E) 0x140000000 initial_chains 0x4F32D05E
   \<and> game_time blank_libc (epoch_memory 0x4F32D05E) 0x140000000 initial_chains
        ''%h:%m %ld, day %md of %lm, %Y'' = None"
  using game_time_huge_epoch [of "epoch_memory 0x4F32D05E" "0x140000000" initial_chains blank_libc
      "''%h:%m %ld, day %md of %lm, %Y''"]
  by (simp add: epoch_memory_reads)

text \<open>
  C9 at inputs the guard lets through.  For 3000000000 the day of the year is -79 and the
  weekday -2; for \<open>2 ^ 31 - 128\<close>, where the conversion is exact and adding 228 wraps
  around, the weekday is -4.  Both weekdays are outside the 7-entry name tables.  (Up to
  \<open>2 ^ 31 - 256\<close> all subscripts are in range: \<open>calendar_in_range\<close>.)
\<close>

theorem calendar_index_out_of_range:
  "isnormal 0x4F32D05E \<and> \<not> float_less_zero 0x4F32D05E
   \<and> cal_yd (game_calendar 0x4F32D05E) = - 79
   \<and> cal_wd (game_calendar 0x4F32D05E) = - 2
   \<and> subscript shrtwday (cal_wd (game_calendar 0x4F32D05E)) = None
   \<and> subscript longwday (cal_wd (game_calendar 0x4F32D05E)) = None
   \<and> isnormal 0x4EFFFFFF \<and> \<not> float_less_zero 0x4EFFFFFF
   \<and> cal_wd (game_calendar 0x4EFFFFFF) = - 4
   \<and> subscript shrtwday (cal_wd (game_calendar 0x4EFFFFFF)) = None"
  by (simp add: classes calendar_3e9 calendar_below_2_31 subscript_def decode)

theorem calendar_index_out_of_range_witness:
  "cal_wd (game_calendar 0x4F32D05E) < 0 \<and> subscript longwday (cal_wd (game_calendar 0x4F32D05E)) = None"
  using calendar_index_out_of_range by (simp add: subscript_def)

text \<open>
  C6.  For the day 365 of a year the lower-bound search in the table of months gives the
  index 11, the last month, and the day 31 of that month (365 less the entry 334 before);
  the month name is in the table.  The raw input 136 is such a day.
\<close>

theorem last_day_of_year:
  "month_index 365 = 11 \<and> month_day 365 = 31
   \<and> subscript longmon (int (month_index 365)) = Some ''Evening Star''
   \<and> cal_yd (game_calendar 0x43080000) = 365
   \<and> cal_mo (game_calendar 0x43080000) = 11
   \<and> cal_md (game_calendar 0x43080000) = 31"
proof -
  have "month_index 365 = 11" "month_day 365 = 31"
    by (simp_all add: int32)
  then show ?thesis
    by (simp add: calendar_136 subscript_def table_lengths names)
qed

theorem last_day_of_year_witness:
  "month_index 365 < 12 \<and> month_day 365 = 31 \<and> cal_mo (game_calendar 0x43080000) = 11"
  using last_day_of_year by simp

section \<open>Formats without escapes\<close>

lemma no_calendar_escape:
  "\<forall>t\<in>set calendar_tokens. \<not> sublist t format \<Longrightarrow>
     substitute_all (calendar_escapes lc x c) format = format"
  by (simp add: substitute_all_def calendar_escapes_def calendar_tokens_def substitute_absent)

lemma no_location_escape:
  "\<forall>t\<in>set location_tokens. \<not> sublist t format \<Longrightarrow>
     names_substituted world cell (coordinates_substituted lc px py pz format) = format"
  by (simp add: names_substituted_def coordinates_substituted_def location_tokens_def
      substitute_absent)

text \<open>
  C8, as the code has it.  \<open>replace_all\<close> returns a text without an occurrence of the
  token unchanged.  A format without a calendar escape is returned unchanged by
  \<open>game_time\<close> when the epoch is available (the chain resolves, the float is normal and
  not negative) and its integer part is at most \<open>2 ^ 31 - 256\<close>; a format without a
  location escape is returned unchanged by \<open>player_location\<close> when the position is
  available and finite.  When the value is not available the result is \<open>(n/a)\<close>, not the
  format.
\<close>

theorem format_without_escapes:
  "(\<not> sublist token text \<longrightarrow> replace_all text token replacement = Some text)
   \<and> ((\<forall>t\<in>set calendar_tokens. \<not> sublist t format)
        \<and> relocation_obtain mem base 1 (game_epoch ch) \<noteq> 0
        \<and> isnormal (load_float mem (relocation_obtain mem base 1 (game_epoch ch)))
        \<and> \<not> float_less_zero (load_float mem (relocation_obtain mem base 1 (game_epoch ch)))
        \<and> float_trunc (load_float mem (relocation_obtain mem base 1 (game_epoch ch))) \<le> 2147483392
      \<longrightarrow> game_time lc mem base ch format = Some format)
   \<and> ((\<forall>t\<in>set location_tokens. \<not> sublist t format)
        \<and> relocation_obtain mem base 1 (player_pos ch) \<noteq> 0
        \<and> isfinite (pos_at mem (relocation_obtain mem base 1 (player_pos ch)) 0)
        \<and> isfinite (pos_at mem (relocation_obtain mem base 1 (player_pos ch)) 1)
        \<and> isfinite (pos_at mem (relocation_obtain mem base 1 (player_pos ch)) 2)
      \<longrightarrow> player_location lc mem base ch format = Some format)
   \<and> (relocation_obtain mem base 1 (game_epoch ch) = 0
        \<or> \<not> isnormal (load_float mem (relocation_obtain mem base 1 (game_epoch ch)))
        \<or> float_less_zero (load_float mem (relocation_obtain mem base 1 (game_epoch ch)))
      \<longrightarrow> game_time lc mem base ch format = Some ''(n/a)'')
   \<and> (relocation_obtain mem base 1 (player_pos ch) = 0
        \<or> \<not> isfinite (pos_at mem (relocation_obtain mem base 1 (player_pos ch)) 0)
        \<or> \<not> isfinite (pos_at mem (relocation_obtain mem base 1 (player_pos ch)) 1)
        \<or> \<not> isfinite (pos_at mem (relocation_obtain mem base 1 (player_pos ch)) 2)
      \<longrightarrow> player_location lc mem base ch format = Some ''(n/a)'')"
proof (intro conjI impI)
  assume "\<not> sublist token text"
  then show "replace_all text token replacement = Some text"
    by (rule replace_all_absent)
next
  assume a: "(\<forall>t\<in>set calendar_tokens. \<not> sublist t format)
        \<and> relocation_obtain mem base 1 (game_epoch ch) \<noteq> 0
        \<and> isnormal (load_float mem (relocation_obtain mem base 1 (game_epoch ch)))
        \<and> \<not> float_less_zero (load_float mem (relocation_obtain mem base 1 (game_epoch ch)))
        \<and> float_trunc (load_float mem (relocation_obtain mem base 1 (game_epoch ch))) \<le> 2147483392"
  then show "game_time lc mem base ch format = Some format"
    using game_time_available[of mem base ch lc format] no_calendar_escape[of format] by simp
next
  assume a: "(\<forall>t\<in>set location_tokens. \<not> sublist t format)
        \<and> relocation_obtain mem base 1 (player_pos ch) \<noteq> 0
        \<and> isfinite (pos_at mem (relocation_obtain mem base 1 (player_pos ch)) 0)
        \<and> isfinite (pos_at mem (relocation_obtain mem base 1 (player_pos ch)) 1)
        \<and> isfinite (pos_at mem (relocation_obtain mem base 1 (player_pos ch)) 2)"
  then show "player_location lc mem base ch format = Some format"
    using player_location_available[of mem base ch lc format] no_location_escape[of format] by simp
next
  assume "relocation_obtain mem base 1 (game_epoch ch) = 0
        \<or> \<not> isnormal (load_float mem (relocation_obtain mem base 1 (game_epoch ch)))
        \<or> float_less_zero (load_float mem (relocation_obtain mem base 1 (game_epoch ch)))"
  then show "game_time lc mem base ch format = Some ''(n/a)''"
    by (rule game_time_unavailable)
next
  assume "relocation_obtain mem base 1 (player_pos ch) = 0
        \<or> \<not> isfinite (pos_at mem (relocation_obtain mem base 1 (player_pos ch)) 0)
        \<or> \<not> isfinite (pos_at mem (relocation_obtain mem base 1 (player_pos ch)) 1)
        \<or> \<not> isfinite (pos_at mem (relocation_obtain mem base 1 (player_pos ch)) 2)"
  then show "player_location lc mem base ch format = Some ''(n/a)''"
    by (rule player_location_unavailable)
qed

lemma hello_plain:
  "\<forall>t\<in>set calendar_tokens. \<not> sublist t ''hello''"
  "\<forall>t\<in>set location_tokens. \<not> sublist t ''hello''"
  "\<not> sublist ''%x'' ''hello''"
  by (simp_all add: calendar_tokens_def location_tokens_def find_first_None_iff[symmetric])

theorem format_without_escapes_witness:
  "\<not> sublist ''%x'' ''hello'' \<and> replace_all ''hello'' ''%x'' ''1'' = Some ''hello''
   \<and> relocation_obtain (epoch_memory 0x3EE66666) 0x140000000 1 (game_epoch initial_chains) \<noteq> 0
   \<and> game_time blank_libc (epoch_memory 0x3EE66666) 0x140000000 initial_chains ''hello'' = Some ''hello''
   \<and> player_location blank_libc (epoch_memory 0x3EE66666) 0x140000000 initial_chains ''hello'' = Some ''(n/a)''
   \<and> relocation_obtain location_memory 0x140000000 1 (player_pos initial_chains) \<noteq> 0
   \<and> player_location blank_libc location_memory 0x140000000 initial_chains ''hello'' = Some ''hello''
   \<and> game_time blank_libc location_memory 0x140000000 initial_chains ''hello'' = Some ''(n/a)''"
proof -
  have t: "float_trunc 0x3EE66666 \<le> 2147483392"
    by (simp add: float_trunc_def decode)
  have e: "relocation_obtain (epoch_memory 0x3EE66666) 0x140000000 1 (player_pos initial_chains) = 0"
    "relocation_obtain location_memory 0x140000000 1 (game_epoch initial_chains) = 0"
    by (simp_all add: relocation_obtain_def obtain_loop.simps epoch_memory_def location_memory_def
        memory_of_def cells_def initial_chains_def)
  show ?thesis
    using format_without_escapes [of "''%x''" "''hello''" "''1''" "''hello''"
        "epoch_memory 0x3EE66666" "0x140000000" initial_chains blank_libc]
      format_without_escapes [of "''%x''" "''hello''" "''1''" "''hello''"
        location_memory "0x140000000" initial_chains blank_libc]
    by (simp add: hello_plain epoch_leaf classes t e location_leaf location_floats location_finite
        del: One_nat_def)
qed

text \<open>
  The claim as stated fails: a format without any escape is not returned when the chains
  do not resolve.
\<close>

theorem unavailable_format_counterexample:
  "CHR ''%'' \<notin> set ''hello''
   \<and> game_time blank_libc (memory_of [] [] []) 0x140000000 initial_chains ''hello'' = Some ''(n/a)''
   \<and> game_time blank_libc (memory_of [] [] []) 0x140000000 initial_chains ''hello'' \<noteq> Some ''hello''
   \<and> player_location blank_libc (memory_of [] [] []) 0x140000000 initial_chains ''hello'' = Some ''(n/a)''
   \<and> player_location blank_libc (memory_of [] [] []) 0x140000000 initial_chains ''hello'' \<noteq> Some ''hello''"
proof -
  have "relocation_obtain (memory_of [] [] []) 0x140000000 1 (player_pos initial_chains) = 0"
    by (simp add: relocation_obtain_def obtain_loop.simps memory_of_def cells_def initial_chains_def)
  then show ?thesis
    by (simp add: game_time_def player_location_def epoch_leaf del: One_nat_def)
qed


end
